theory Spec2Isabelle
  imports Main "HOL-Library.Multiset"
begin

section \<open>configify: the type-checked generator\<close>

text \<open>
  The development follows the second, type-checked \<^verbatim>\<open>main.go\<close> of the repository
  (\<^verbatim>\<open>Generator.generate\<close> ranging over \<^verbatim>\<open>g.pkg.defs\<close>), its helpers
  \<^verbatim>\<open>lowerName\<close> and \<^verbatim>\<open>upperName\<close>, and the template \<^verbatim>\<open>mapType.inc\<close>.
  Go strings are byte strings and are modelled as \<^typ>\<open>string\<close>.
\<close>

subsection \<open>Panics\<close>

datatype panic =
    TypeAssertion      \<comment> \<open>\<^verbatim>\<open>x.(T)\<close> on a value that is not a \<^verbatim>\<open>T\<close>\<close>
  | NilDereference     \<comment> \<open>method call on a nil interface value\<close>
  | SliceBounds        \<comment> \<open>\<^verbatim>\<open>s[1:]\<close> on an empty string\<close>
  | IndexOutOfRange    \<comment> \<open>\<^verbatim>\<open>a[0]\<close> on an empty slice\<close>
  | NilMapWrite        \<comment> \<open>assignment to an entry of a nil map\<close>

subsection \<open>The part of \<^verbatim>\<open>go/types\<close> the generator reads\<close>

text \<open>
  A struct field is a \<^verbatim>\<open>*types.Var\<close>; the generator calls \<^verbatim>\<open>Pkg()\<close> (here the
  package path), \<^verbatim>\<open>Name()\<close>, \<^verbatim>\<open>Embedded()\<close> and \<^verbatim>\<open>Type()\<close> on it.
\<close>

datatype 'ty var = Var (Pkg: string) (Name: string) (Embedded: bool) (Type: 'ty)

datatype ChanDir = SendRecv | SendOnly | RecvOnly

text \<open>
  Types. \<open>Named p n rhs\<close> is a defined type \<open>n\<close> of the package with path \<open>p\<close>
  (\<open>None\<close> for the universe, as for \<^verbatim>\<open>error\<close>) declared as \<open>rhs\<close>. Function and
  interface types carry the text the type printer gives them. \<open>TypeParam n c\<close> is the
  type parameter \<open>n\<close> of a generic declaration, \<open>c\<close> being the text of the interface of
  its constraint. Struct tags and the type arguments of instantiated types are not part
  of this datatype: a type that has them is outside the model.
\<close>

datatype gotype =
    Basic string
  | Named "string option" string gotype
  | Pointer gotype
  | Slice gotype
  | Array nat gotype
  | Map gotype gotype
  | Chan ChanDir gotype
  | Signature string
  | Interface string
  | Struct "gotype var list"
  | TypeParam string string

text \<open>
  \<^verbatim>\<open>Type.Underlying()\<close>: a defined type resolves to the type behind its declaration, and
  the underlying type of a type parameter is the interface of its constraint.
\<close>

fun Underlying :: "gotype \<Rightarrow> gotype" where
  "Underlying (Named p n rhs) = Underlying rhs"
| "Underlying (TypeParam n c) = Interface c"
| "Underlying t = t"

text \<open>\<^verbatim>\<open>types.RelativeTo(pkg)\<close>: the qualifier that leaves \<open>pkg\<close>'s own names bare.\<close>

definition RelativeTo :: "string \<Rightarrow> string \<Rightarrow> string" where
  "RelativeTo pkg other = (if pkg = other then [] else other)"

definition digit :: "nat \<Rightarrow> char" where
  "digit n = char_of (of_char (CHR ''0'') + n)"

function FormatInt :: "nat \<Rightarrow> string" where
  "FormatInt n = (if n < 10 then [digit n] else FormatInt (n div 10) @ [digit (n mod 10)])"
  by pat_completeness auto
termination
  by (relation "measure id") auto

declare FormatInt.simps [simp del]

fun join :: "string \<Rightarrow> string list \<Rightarrow> string" where
  "join sep [] = []"
| "join sep [x] = x"
| "join sep (x # y # ys) = x @ sep @ join sep (y # ys)"

fun isRecvOnlyChan :: "gotype \<Rightarrow> bool" where
  "isRecvOnlyChan (Chan RecvOnly t) = True"
| "isRecvOnlyChan t = False"

definition packagePrefix :: "string option \<Rightarrow> (string \<Rightarrow> string) \<Rightarrow> string" where
  "packagePrefix pkg qf =
     (case pkg of
        None \<Rightarrow> []
      | Some path \<Rightarrow> (let s = qf path in if s \<noteq> [] then s @ ''.'' else s))"

definition writeField :: "string var \<Rightarrow> string" where
  "writeField f = (if Embedded f then Type f else Name f @ '' '' @ Type f)"

text \<open>\<^verbatim>\<open>types.TypeString(typ, qf)\<close>.\<close>

primrec TypeString :: "gotype \<Rightarrow> (string \<Rightarrow> string) \<Rightarrow> string" where
  "TypeString (Basic n) qf = n"
| "TypeString (Named p n rhs) qf = packagePrefix p qf @ n"
| "TypeString (Pointer t) qf = ''*'' @ TypeString t qf"
| "TypeString (Slice t) qf = ''[]'' @ TypeString t qf"
| "TypeString (Array n t) qf = ''['' @ FormatInt n @ '']'' @ TypeString t qf"
| "TypeString (Map k v) qf = ''map['' @ TypeString k qf @ '']'' @ TypeString v qf"
| "TypeString (Chan d t) qf =
     (case d of
        SendRecv \<Rightarrow>
          ''chan '' @ (if isRecvOnlyChan t then ''('' @ TypeString t qf @ '')''
                       else TypeString t qf)
      | SendOnly \<Rightarrow> ''chan<- '' @ TypeString t qf
      | RecvOnly \<Rightarrow> ''<-chan '' @ TypeString t qf)"
| "TypeString (Signature s) qf = s"
| "TypeString (Interface s) qf = s"
| "TypeString (Struct fs) qf =
     ''struct{''
       @ join ''; '' (map (\<lambda>f. writeField (map_var (\<lambda>pr. pr qf) f)) (map (map_var TypeString) fs))
       @ ''}''"
| "TypeString (TypeParam n c) qf = n"

text \<open>
  \<^verbatim>\<open>strings.LastIndex(s, sep)\<close> for a separator of one byte: the index of its last
  occurrence, or \<open>-1\<close>.
\<close>

fun LastIndex :: "string \<Rightarrow> char \<Rightarrow> int" where
  "LastIndex [] c = - 1"
| "LastIndex (x # xs) c =
     (let r = LastIndex xs c in if 0 \<le> r then r + 1 else if x = c then 0 else - 1)"

subsection \<open>The generator's data\<close>

datatype ValueType = baseType | pointerType | sliceType | mapType | interfaceType

record Value =
  originalName :: string
  originalType :: string
  valueType :: ValueType

text \<open>
  An entry of \<^verbatim>\<open>TypesInfo.Defs\<close> maps a defining identifier to its object, or to
  nil. Only the identifier's name and the object's \<^verbatim>\<open>Type()\<close> are read.
\<close>

datatype objkind = TypeNameObj | VarObj | FuncObj | ConstObj

datatype Object = Object (Kind: objkind) (ObjType: gotype)

record Package =
  name :: string
  defs :: "(string \<times> Object option) list"

record Generator =
  buf :: string
  pkg :: Package

text \<open>
  The line \<^verbatim>\<open>fmt.Printf("%s - %s - %T %#v\n", field.Name(), typeString, typ, typ)\<close>
  is kept as its three arguments.
\<close>

datatype diagnostic = Unsupported string string gotype

text \<open>The locals of \<^verbatim>\<open>generate\<close> that the loops update, and what was printed.\<close>

record collected =
  valueList :: "Value list"
  importsMap :: "string set"
  printed :: "diagnostic list"

subsection \<open>\<^verbatim>\<open>generate\<close>: collecting the fields\<close>

definition appendValue :: "string \<Rightarrow> string \<Rightarrow> string \<Rightarrow> ValueType \<Rightarrow> collected \<Rightarrow> collected" where
  "appendValue fname imp typeString vt st =
     st\<lparr>importsMap := (if 0 < length imp then insert imp (importsMap st) else importsMap st),
        valueList := valueList st @ [\<lparr>originalName = fname, originalType = typeString, valueType = vt\<rparr>]\<rparr>"

text \<open>The body of the loop over \<^verbatim>\<open>struc.Field(i)\<close>.\<close>

definition fieldStep :: "gotype var \<Rightarrow> collected \<Rightarrow> panic + collected" where
  "fieldStep field st =
     (if Embedded field then Inr st
      else
        let typeString = TypeString (Type field) (RelativeTo (Pkg field));
            indx = LastIndex typeString (CHR ''.'');
            imp = (if 0 < indx then take (nat indx) typeString else []);
            indx' = LastIndex typeString (CHR ''/'');
            typeString = (if 0 < indx' then drop (nat (indx' + 1)) typeString else typeString)
        in case Underlying (Type field) of
             Basic b \<Rightarrow> Inr (appendValue (Name field) imp typeString baseType st)
           | Array n t \<Rightarrow> Inr (appendValue (Name field) imp typeString baseType st)
           | Slice t \<Rightarrow> Inr (appendValue (Name field) imp typeString sliceType st)
           | Map k v \<Rightarrow> Inr (appendValue (Name field) imp typeString mapType st)
           | Signature s \<Rightarrow> Inr (appendValue (Name field) imp typeString baseType st)
           | Pointer t \<Rightarrow>
               (let imp = (if 0 < length imp then drop 1 imp else imp)
                in if typeString = [] then Inl SliceBounds
                   else Inr (appendValue (Name field) imp (drop 1 typeString) pointerType st))
           | Interface s \<Rightarrow> Inr (appendValue (Name field) imp typeString interfaceType st)
           | Struct fs \<Rightarrow> Inr (appendValue (Name field) imp typeString baseType st)
           | typ \<Rightarrow> Inr (st\<lparr>printed := printed st @ [Unsupported (Name field) typeString typ]\<rparr>))"

fun fieldLoop :: "gotype var list \<Rightarrow> collected \<Rightarrow> panic + collected" where
  "fieldLoop [] st = Inr st"
| "fieldLoop (field # rest) st =
     (case fieldStep field st of
        Inl e \<Rightarrow> Inl e
      | Inr st' \<Rightarrow> fieldLoop rest st')"

text \<open>
  \<^verbatim>\<open>struc := v.Type().(*types.Named).Underlying().(*types.Struct)\<close>: the fields of the
  struct, or the panic of the failing step.
\<close>

definition namedStruct :: "Object option \<Rightarrow> panic + gotype var list" where
  "namedStruct v =
     (case v of
        None \<Rightarrow> Inl NilDereference
      | Some ob \<Rightarrow>
          (case ObjType ob of
             Named p n rhs \<Rightarrow>
               (case Underlying (Named p n rhs) of
                  Struct fs \<Rightarrow> Inr fs
                | u \<Rightarrow> Inl TypeAssertion)
           | t \<Rightarrow> Inl TypeAssertion))"

text \<open>
  The loop \<^verbatim>\<open>for e, v := range g.pkg.defs\<close>. The list is the map's entries in the
  order this run's iteration yields them.
\<close>

fun defsLoop :: "string \<Rightarrow> (string \<times> Object option) list \<Rightarrow> collected \<Rightarrow> panic + collected" where
  "defsLoop typeName [] st = Inr st"
| "defsLoop typeName ((e, v) # ds) st =
     (if e = typeName then
        (case namedStruct v of
           Inl p \<Rightarrow> Inl p
         | Inr fs \<Rightarrow>
             (case fieldLoop fs st of
                Inl p \<Rightarrow> Inl p
              | Inr st' \<Rightarrow> defsLoop typeName ds st'))
      else defsLoop typeName ds st)"

subsection \<open>\<^verbatim>\<open>lowerName\<close> and \<^verbatim>\<open>upperName\<close>\<close>

text \<open>
  An identifier is taken as its sequence of runes \<open>a\<close>; \<^verbatim>\<open>unicode.ToLower\<close> and
  \<^verbatim>\<open>unicode.ToUpper\<close> are parameters.
\<close>

definition lowerName :: "('r \<Rightarrow> 'r) \<Rightarrow> 'r list \<Rightarrow> panic + 'r list" where
  "lowerName ToLower a =
     (if 0 < length a then Inr (a[0 := ToLower (a ! 0)]) else Inl IndexOutOfRange)"

definition upperName :: "('r \<Rightarrow> 'r) \<Rightarrow> 'r list \<Rightarrow> panic + 'r list" where
  "upperName ToUpper a =
     (if 0 < length a then Inr (a[0 := ToUpper (a ! 0)]) else Inl IndexOutOfRange)"

text \<open>\<^verbatim>\<open>unicode.ToLower\<close> and \<^verbatim>\<open>unicode.ToUpper\<close> on the ASCII range.\<close>

definition asciiToLower :: "char \<Rightarrow> char" where
  "asciiToLower r =
     (if of_char (CHR ''A'') \<le> (of_char r :: nat) \<and> (of_char r :: nat) \<le> of_char (CHR ''Z'')
      then char_of ((of_char r :: nat) + 32) else r)"

definition asciiToUpper :: "char \<Rightarrow> char" where
  "asciiToUpper r =
     (if of_char (CHR ''a'') \<le> (of_char r :: nat) \<and> (of_char r :: nat) \<le> of_char (CHR ''z'')
      then char_of ((of_char r :: nat) - 32) else r)"

subsection \<open>\<^verbatim>\<open>generate\<close>: executing the templates\<close>

record headerData =
  h_package :: string
  h_cfgType :: string
  h_imports :: "string list"

record fieldData =
  origName :: string
  nameLower :: string
  nameUpper :: string
  origType :: string

text \<open>A rune is a code point.\<close>

type_synonym rune = nat

text \<open>
  What \<^verbatim>\<open>generate\<close> takes from outside this file: the conversions \<^verbatim>\<open>[]rune(s)\<close> and
  \<^verbatim>\<open>string(a)\<close> between a string and its runes, the two case mappings of
  \<^verbatim>\<open>unicode\<close> and, for each embedded template text, the function from its data to the
  text \<^verbatim>\<open>Execute\<close> writes.
\<close>

record lib =
  toRunes :: "string \<Rightarrow> rune list"
  fromRunes :: "rune list \<Rightarrow> string"
  ToLower :: "rune \<Rightarrow> rune"
  ToUpper :: "rune \<Rightarrow> rune"
  templateHeader :: "headerData \<Rightarrow> string"
  templateBaseType :: "fieldData \<Rightarrow> string"
  templatePointerType :: "fieldData \<Rightarrow> string"
  templateSliceType :: "fieldData \<Rightarrow> string"
  templateInterfaceType :: "fieldData \<Rightarrow> string"

text \<open>The map \<^verbatim>\<open>temps\<close>: four keys, none for \<open>mapType\<close>.\<close>

fun temps :: "lib \<Rightarrow> ValueType \<Rightarrow> (fieldData \<Rightarrow> string) option" where
  "temps L baseType = Some (templateBaseType L)"
| "temps L pointerType = Some (templatePointerType L)"
| "temps L sliceType = Some (templateSliceType L)"
| "temps L interfaceType = Some (templateInterfaceType L)"
| "temps L mapType = None"

text \<open>
  The loop \<^verbatim>\<open>for _, value := range values\<close>, appending to the buffer. The two name
  functions get the runes of the name, and their results are made strings again.
\<close>

fun valuesLoop :: "lib \<Rightarrow> Value list \<Rightarrow> string \<Rightarrow> panic + string" where
  "valuesLoop L [] b = Inr b"
| "valuesLoop L (val # vals) b =
     (case temps L (valueType val) of
        None \<Rightarrow> valuesLoop L vals b
      | Some temp \<Rightarrow>
          (case lowerName (ToLower L) (toRunes L (originalName val)) of
             Inl p \<Rightarrow> Inl p
           | Inr lo \<Rightarrow>
               (case upperName (ToUpper L) (toRunes L (originalName val)) of
                  Inl p \<Rightarrow> Inl p
                | Inr up \<Rightarrow>
                    valuesLoop L vals
                      (b @ temp \<lparr>origName = originalName val, nameLower = fromRunes L lo,
                                 nameUpper = fromRunes L up, origType = originalType val\<rparr>))))"

text \<open>
  \<open>rangeOrder il S\<close>: the list \<open>il\<close> is an order in which \<^verbatim>\<open>for imp := range imports\<close>
  may yield the keys \<open>S\<close>.
\<close>

definition rangeOrder :: "'a list \<Rightarrow> 'a set \<Rightarrow> bool" where
  "rangeOrder il S = (distinct il \<and> set il = S)"

definition collect :: "Generator \<Rightarrow> string \<Rightarrow> panic + collected" where
  "collect g typeName =
     defsLoop typeName (defs (pkg g)) \<lparr>valueList = [], importsMap = {}, printed = []\<rparr>"

text \<open>
  \<^verbatim>\<open>generate\<close>. \<open>importList\<close> is what the loop over \<^verbatim>\<open>imports\<close> built in this run. The
  result is the generator with its buffer filled, and the lines printed.
\<close>

definition generate :: "lib \<Rightarrow> Generator \<Rightarrow> string \<Rightarrow> string list \<Rightarrow> panic + (Generator \<times> diagnostic list)" where
  "generate L g typeName importList =
     (case collect g typeName of
        Inl p \<Rightarrow> Inl p
      | Inr st \<Rightarrow>
          (case valuesLoop L (valueList st)
                  (buf g @ templateHeader L
                     \<lparr>h_package = name (pkg g), h_cfgType = typeName, h_imports = importList\<rparr>) of
             Inl p \<Rightarrow> Inl p
           | Inr b \<Rightarrow> Inr (g\<lparr>buf := b\<rparr>, printed st)))"

subsection \<open>The template texts\<close>

definition nl :: string where
  "nl = [CHR 0x0A]"

definition tab :: string where
  "tab = [CHR 0x09]"

definition quoted :: "string \<Rightarrow> string" where
  "quoted s = [CHR 0x22] @ s @ [CHR 0x22]"

text \<open>\<^verbatim>\<open>mapType.inc\<close>, executed on its data. \<^verbatim>\<open>generate\<close> never parses this template.\<close>

definition mapType_inc :: "fieldData \<Rightarrow> string" where
  "mapType_inc d =
     ''type '' @ nameLower d @ ''Option '' @ origType d @ nl
     @ ''func (o '' @ nameLower d @ ''Option) Apply(c *config ) {'' @ nl
     @ tab @ ''if c.'' @ origName d @ '' == nil {'' @ nl
     @ tab @ tab @ ''c.'' @ origName d @ '' = '' @ origType d @ ''(o)'' @ nl
     @ tab @ ''}'' @ nl
     @ tab @ ''for k,v := range o {'' @ nl
     @ tab @ tab @ ''c.'' @ origName d @ ''[k] = v'' @ nl
     @ tab @ ''}'' @ nl
     @ ''}'' @ nl
     @ ''func With'' @ nameUpper d @ ''(m '' @ origType d @ '') Option { return ''
     @ nameLower d @ ''Option(m) }'' @ nl @ nl"

text \<open>
  Modelled from the spec: \<^verbatim>\<open>header.inc\<close> is not among the sources. The header is the
  package clause, the import block with one line per import path in the order given,
  the constructor \<^verbatim>\<open>New\<close>, the method \<^verbatim>\<open>Apply\<close> folding the options in order, and the
  interface \<^verbatim>\<open>Option\<close>.
\<close>

definition header_inc :: "headerData \<Rightarrow> string" where
  "header_inc d =
     ''package '' @ h_package d @ nl @ nl
     @ ''import ('' @ nl
     @ concat (map (\<lambda>i. tab @ quoted i @ nl) (h_imports d))
     @ '')'' @ nl @ nl
     @ ''func New(options ...Option) *'' @ h_cfgType d @ '' {'' @ nl
     @ tab @ ''cfg := &'' @ h_cfgType d @ ''{}'' @ nl
     @ tab @ ''cfg.Apply(options...)'' @ nl
     @ tab @ ''return cfg'' @ nl
     @ ''}'' @ nl
     @ ''func (c *'' @ h_cfgType d @ '') Apply(options ...Option) {'' @ nl
     @ tab @ ''for _, option := range options {'' @ nl
     @ tab @ tab @ ''option.Apply(c)'' @ nl
     @ tab @ ''}'' @ nl
     @ ''}'' @ nl @ nl
     @ ''type Option interface {'' @ nl
     @ tab @ ''Apply(*'' @ h_cfgType d @ '')'' @ nl
     @ ''}'' @ nl @ nl"

text \<open>
  Modelled from the spec: \<^verbatim>\<open>baseType.inc\<close>, \<^verbatim>\<open>sliceType.inc\<close> and
  \<^verbatim>\<open>interfaceType.inc\<close> are not among the sources. Each is a private option type
  aliasing \<open>origType\<close>, an \<^verbatim>\<open>Apply\<close> that assigns the field, and the exported factory
  \<^verbatim>\<open>With<nameUpper>(origType) Option\<close>.
\<close>

definition assign_inc :: "fieldData \<Rightarrow> string" where
  "assign_inc d =
     ''type '' @ nameLower d @ ''Option '' @ origType d @ nl
     @ ''func (o '' @ nameLower d @ ''Option) Apply(c *config ) { c.'' @ origName d
     @ '' = '' @ origType d @ ''(o) }'' @ nl
     @ ''func With'' @ nameUpper d @ ''(m '' @ origType d @ '') Option { return ''
     @ nameLower d @ ''Option(m) }'' @ nl"

text \<open>
  Modelled from the spec: \<^verbatim>\<open>pointerType.inc\<close> is not among the sources. The factory takes
  the pointee by value and \<^verbatim>\<open>Apply\<close> assigns a pointer to a private copy of it.
\<close>

definition pointerType_inc :: "fieldData \<Rightarrow> string" where
  "pointerType_inc d =
     ''type '' @ nameLower d @ ''Option '' @ origType d @ nl
     @ ''func (o '' @ nameLower d @ ''Option) Apply(c *config ) { v := '' @ origType d
     @ ''(o); c.'' @ origName d @ '' = &v }'' @ nl
     @ ''func With'' @ nameUpper d @ ''(m '' @ origType d @ '') Option { return ''
     @ nameLower d @ ''Option(m) }'' @ nl"

text \<open>
  The library on ASCII text, where a rune is a byte: the two conversions, and
  \<^verbatim>\<open>unicode.ToLower\<close> and \<^verbatim>\<open>unicode.ToUpper\<close> as they are for
  \<^verbatim>\<open>r <= unicode.MaxASCII\<close>. Runes beyond ASCII go through the library's case tables,
  which are not modelled; \<open>goLib\<close> is used on ASCII identifiers only.
\<close>

definition asciiRunes :: "string \<Rightarrow> rune list" where
  "asciiRunes s = map of_char s"

definition asciiString :: "rune list \<Rightarrow> string" where
  "asciiString a = map char_of a"

definition runeToLower :: "rune \<Rightarrow> rune" where
  "runeToLower r = (if 65 \<le> r \<and> r \<le> 90 then r + 32 else r)"

definition runeToUpper :: "rune \<Rightarrow> rune" where
  "runeToUpper r = (if 97 \<le> r \<and> r \<le> 122 then r - 32 else r)"

definition goLib :: lib where
  "goLib = \<lparr>toRunes = asciiRunes, fromRunes = asciiString,
            ToLower = runeToLower, ToUpper = runeToUpper,
            templateHeader = header_inc, templateBaseType = assign_inc,
            templatePointerType = pointerType_inc, templateSliceType = assign_inc,
            templateInterfaceType = assign_inc\<rparr>"

subsection \<open>What the code generated from \<^verbatim>\<open>mapType.inc\<close> does\<close>

text \<open>
  A Go map value is a reference, \<open>None\<close> being the nil map; the store gives each
  reference its entries. The struct has the map field \<open>maps\<close>, as in
  \<^verbatim>\<open>example/example.go\<close>.
\<close>

type_synonym mapref = "nat option"

type_synonym ('k, 'v) store = "nat \<Rightarrow> ('k \<rightharpoonup> 'v)"

record config =
  maps :: mapref

definition entries :: "('k, 'v) store \<Rightarrow> mapref \<Rightarrow> ('k \<rightharpoonup> 'v)" where
  "entries h m = (case m of None \<Rightarrow> Map.empty | Some r \<Rightarrow> h r)"

text \<open>
  \<^verbatim>\<open>for k,v := range o { c.maps[k] = v }\<close>, the keys of \<open>o\<close> coming in the order \<open>ks\<close>.
\<close>

fun rangeAssign :: "mapref \<Rightarrow> mapref \<Rightarrow> 'k list \<Rightarrow> ('k, 'v) store \<Rightarrow> panic + ('k, 'v) store" where
  "rangeAssign opt fld [] h = Inr h"
| "rangeAssign opt fld (k # ks) h =
     (case entries h opt k of
        None \<Rightarrow> rangeAssign opt fld ks h
      | Some v \<Rightarrow>
          (case fld of
             None \<Rightarrow> Inl NilMapWrite
           | Some r \<Rightarrow> rangeAssign opt fld ks (h(r := (h r)(k \<mapsto> v)))))"

text \<open>\<^verbatim>\<open>func (o mapsOption) Apply(c *config)\<close>.\<close>

definition mapsOption_Apply ::
  "mapref \<Rightarrow> 'k list \<Rightarrow> 'a config_scheme \<times> ('k, 'v) store \<Rightarrow> panic + 'a config_scheme \<times> ('k, 'v) store" where
  "mapsOption_Apply opt ks cs =
     (let c = fst cs; h = snd cs;
          c = (if maps c = None then c\<lparr>maps := opt\<rparr> else c)
      in case rangeAssign opt (maps c) ks h of
           Inl p \<Rightarrow> Inl p
         | Inr h' \<Rightarrow> Inr (c, h'))"

text \<open>\<^verbatim>\<open>func WithMaps(m map[...]...) Option { return mapsOption(m) }\<close>: the same reference.\<close>

definition WithMaps :: "mapref \<Rightarrow> mapref" where
  "WithMaps m = m"

text \<open>Running one step after another, a panic ending the run.\<close>

definition andThen :: "panic + 'a \<Rightarrow> ('a \<Rightarrow> panic + 'b) \<Rightarrow> panic + 'b" where
  "andThen r f = (case r of Inl p \<Rightarrow> Inl p | Inr x \<Rightarrow> f x)"

subsection \<open>The package of \<^verbatim>\<open>example/example.go\<close>\<close>

definition examplePath :: string where
  "examplePath = ''github.com/madvikinggod/configify/example''"

definition MyType :: gotype where
  "MyType = Named (Some examplePath) ''MyType'' (Basic ''string'')"

definition ioReader :: gotype where
  "ioReader = Named (Some ''io'') ''Reader'' (Interface ''interface{Read(p []byte) (n int, err error)}'')"

definition exampleFields :: "gotype var list" where
  "exampleFields =
     [Var examplePath ''myType'' False MyType,
      Var examplePath ''color'' False (Basic ''string''),
      Var examplePath ''Height'' False (Basic ''int''),
      Var examplePath ''array'' False (Array 3 (Basic ''int'')),
      Var examplePath ''slice'' False (Slice (Basic ''int'')),
      Var examplePath ''maps'' False (Map (Basic ''string'') (Basic ''string'')),
      Var examplePath ''funcs'' False (Signature ''func(int) error''),
      Var examplePath ''point'' False (Pointer (Basic ''string'')),
      Var examplePath ''inter'' False ioReader,
      Var examplePath ''MyType'' True MyType]"

text \<open>A package \<open>example\<close> whose only definition named \<open>config\<close> is a struct with the given fields.\<close>

definition structPkg :: "gotype var list \<Rightarrow> Generator" where
  "structPkg fs =
     \<lparr>buf = [],
      pkg = \<lparr>name = ''example'',
             defs = [(''MyType'', Some (Object TypeNameObj MyType)),
                     (''config'', Some (Object TypeNameObj (Named (Some examplePath) ''config'' (Struct fs))))]\<rparr>\<rparr>"

subsection \<open>The spec's vocabulary\<close>


text \<open>A named struct type: a defined type whose underlying type is a struct.\<close>

fun isNamedStruct :: "gotype \<Rightarrow> bool" where
  "isNamedStruct (Named p n rhs) = (case Underlying rhs of Struct fs \<Rightarrow> True | u \<Rightarrow> False)"
| "isNamedStruct t = False"

text \<open>The text of a run and what it printed, or its panic.\<close>

definition generated :: "panic + (Generator \<times> diagnostic list) \<Rightarrow> panic + (string \<times> diagnostic list)" where
  "generated r = (case r of Inl p \<Rightarrow> Inl p | Inr gd \<Rightarrow> Inr (buf (fst gd), snd gd))"

definition start :: collected where
  "start = \<lparr>valueList = [], importsMap = {}, printed = []\<rparr>"



subsection \<open>Further inputs\<close>

text \<open>\<^verbatim>\<open>errors.Frame\<close> of \<^verbatim>\<open>github.com/pkg/errors\<close>, imported by the second example file.\<close>

definition errorsFrame :: gotype where
  "errorsFrame = Named (Some ''github.com/pkg/errors'') ''Frame'' (Basic ''uintptr'')"

definition mapsField :: "gotype var" where
  "mapsField = Var examplePath ''maps'' False (Map (Basic ''string'') (Basic ''string''))"

text \<open>A package in which \<open>config\<close> is a function.\<close>

definition funcPkg :: Generator where
  "funcPkg = \<lparr>buf = [], pkg = \<lparr>name = ''example'',
       defs = [(''config'', Some (Object FuncObj (Signature ''func()'')))]\<rparr>\<rparr>"



text \<open>\<^verbatim>\<open>sync.WaitGroup\<close>, and a struct with the fields \<^verbatim>\<open>inter\<close> and \<^verbatim>\<open>buf2\<close> of the second example file.\<close>

definition syncWaitGroup :: gotype where
  "syncWaitGroup = Named (Some ''sync'') ''WaitGroup''
     (Struct [Var ''sync'' ''noCopy'' False (Named (Some ''sync'') ''noCopy'' (Struct [])),
              Var ''sync'' ''state1'' False (Array 3 (Basic ''uint32''))])"

definition importingFields :: "gotype var list" where
  "importingFields =
     [Var examplePath ''inter'' False ioReader,
      Var examplePath ''buf2'' False (Pointer syncWaitGroup)]"





text \<open>
  The package \<^verbatim>\<open>type inner struct { a int }; var config inner\<close>: \<open>config\<close> is a variable
  whose type is a named struct type.
\<close>

definition inner :: gotype where
  "inner = Named (Some examplePath) ''inner'' (Struct [Var examplePath ''a'' False (Basic ''int'')])"

definition varPkg :: Generator where
  "varPkg = \<lparr>buf = [], pkg = \<lparr>name = ''example'',
       defs = [(''inner'', Some (Object TypeNameObj inner)),
               (''a'', Some (Object VarObj (Basic ''int''))),
               (''config'', Some (Object VarObj inner))]\<rparr>\<rparr>"

text \<open>A store with the maps \<^verbatim>\<open>{"x":1}\<close> at reference 0 and \<^verbatim>\<open>{"y":2}\<close> at reference 1.\<close>

definition abStore :: "(string, int) store" where
  "abStore = (\<lambda>r. Map.empty)(0 := [''x'' \<mapsto> 1], 1 := [''y'' \<mapsto> 2])"

section \<open>Properties\<close>

subsection \<open>Evaluation and basic facts\<close>

lemmas eval_defs =
  collect_def structPkg_def exampleFields_def namedStruct_def fieldStep_def MyType_def
  ioReader_def examplePath_def RelativeTo_def packagePrefix_def appendValue_def start_def
  generate_def generated_def lowerName_def upperName_def asciiToLower_def asciiToUpper_def
  char_of_def bit_Suc_0_iff goLib_def digit_def FormatInt.simps writeField_def Let_def
  asciiRunes_def asciiString_def runeToLower_def runeToUpper_def

lemma Underlying_not_Named: "Underlying t \<noteq> Named p n rhs"
  by (induction t) simp_all



lemma collect_structPkg: "collect (structPkg fs) ''config'' = fieldLoop fs start"
  by (simp add: collect_def structPkg_def namedStruct_def MyType_def start_def split: sum.splits)

subsection \<open>Naming\<close>

text \<open>
  C9. For a non-empty identifier, \<^verbatim>\<open>lowerName\<close> returns the identifier with its first
  rune replaced by that rune's lower-case form and \<^verbatim>\<open>upperName\<close> with its first rune
  replaced by the upper-case form; every later rune is the one of the identifier.
\<close>

theorem lowerName_upperName_first_rune:
  assumes "a \<noteq> []"
  shows "lowerName lo a = Inr (lo (hd a) # tl a) \<and> upperName up a = Inr (up (hd a) # tl a)"
  using assms by (cases a) (simp_all add: lowerName_def upperName_def)

theorem lowerName_upperName_first_rune_witness:
  "''Height'' \<noteq> [] \<and> lowerName asciiToLower ''Height'' = Inr ''height''
     \<and> upperName asciiToUpper ''Height'' = Inr ''Height''"
  using lowerName_upperName_first_rune [of "''Height''" asciiToLower asciiToUpper]
  by (simp add: asciiToLower_def asciiToUpper_def char_of_def bit_Suc_0_iff)

subsection \<open>Embedded fields\<close>



subsection \<open>Classification\<close>








lemma generated_structPkg:
  "generated (generate L (structPkg fs) ''config'' il) =
     (case fieldLoop fs start of
        Inl p \<Rightarrow> Inl p
      | Inr st \<Rightarrow>
          (case valuesLoop L (valueList st)
                  (templateHeader L \<lparr>h_package = ''example'', h_cfgType = ''config'', h_imports = il\<rparr>) of
             Inl p \<Rightarrow> Inl p
           | Inr b \<Rightarrow> Inr (b, printed st)))"
  unfolding generate_def generated_def collect_structPkg
  by (simp add: structPkg_def split: sum.splits)


subsection \<open>Unsupported shapes\<close>










subsection \<open>Identifiers named as the target that are not struct types\<close>

lemma namedStruct_not:
  "\<not> isNamedStruct (ObjType ob) \<Longrightarrow> namedStruct (Some ob) = Inl TypeAssertion"
  by (cases "ObjType ob") (auto simp: namedStruct_def split: gotype.splits)

lemma defsLoop_panics:
  "(typeName, v) \<in> set ds \<Longrightarrow> namedStruct v = Inl p \<Longrightarrow> \<exists>q. defsLoop typeName ds st = Inl q"
proof (induction ds arbitrary: st)
  case Nil
  then show ?case by simp
next
  case (Cons d ds)
  obtain e w where d: "d = (e, w)" by (cases d)
  show ?case
  proof (cases "e = typeName")
    case False
    with Cons d show ?thesis by auto
  next
    case True
    show ?thesis
    proof (cases "namedStruct w")
      case (Inl q)
      with True d show ?thesis by simp
    next
      case (Inr fs)
      with Cons.prems d have mem: "(typeName, v) \<in> set ds" by auto
      show ?thesis
      proof (cases "fieldLoop fs st")
        case (Inl q)
        with Inr True d show ?thesis by simp
      next
        case (Inr st')
        from Cons.IH [OF mem Cons.prems(2), of st'] \<open>namedStruct w = Inr fs\<close> Inr True d
        show ?thesis by simp
      qed
    qed
  qed
qed

lemma defsLoop_TypeAssertion:
  "(typeName, v) \<in> set ds \<Longrightarrow> \<forall>w. (typeName, w) \<in> set ds \<longrightarrow> namedStruct w = Inl TypeAssertion
     \<Longrightarrow> defsLoop typeName ds st = Inl TypeAssertion"
proof (induction ds arbitrary: st)
  case Nil
  then show ?case by simp
next
  case (Cons d ds)
  obtain e w where d: "d = (e, w)" by (cases d)
  show ?case
  proof (cases "e = typeName")
    case True
    with Cons.prems(2) d have "namedStruct w = Inl TypeAssertion" by simp
    with True d show ?thesis by simp
  next
    case False
    with Cons d show ?thesis by auto
  qed
qed

text \<open>
  C10 as the code has it. The assertions are on the type of the identifier's object,
  whatever kind of object it is. If the definitions of the package hold an identifier
  with the requested name whose object's type is not a named struct type,
  \<^verbatim>\<open>generate\<close> panics, whatever the order of the iteration; and when every identifier
  of that name has such an object, the panic is the one of the unchecked type
  assertion. An object whose type is a named struct type passes both assertions, and the
  loop walks the fields of that struct.
\<close>

theorem target_name_type_decides:
  "((typeName, Some ob) \<in> set (defs (pkg g)) \<and> \<not> isNamedStruct (ObjType ob)
      \<longrightarrow> (\<exists>p. generate L g typeName il = Inl p)
        \<and> ((\<forall>v. (typeName, v) \<in> set (defs (pkg g))
                 \<longrightarrow> (\<exists>ob'. v = Some ob' \<and> \<not> isNamedStruct (ObjType ob')))
             \<longrightarrow> generate L g typeName il = Inl TypeAssertion))
   \<and> (isNamedStruct (ObjType ob)
      \<longrightarrow> (\<exists>fs. Underlying (ObjType ob) = Struct fs \<and> namedStruct (Some ob) = Inr fs
              \<and> defsLoop typeName [(typeName, Some ob)] st = fieldLoop fs st))"
proof -
  have panics: "(\<exists>p. generate L g typeName il = Inl p)
        \<and> ((\<forall>v. (typeName, v) \<in> set (defs (pkg g))
                 \<longrightarrow> (\<exists>ob'. v = Some ob' \<and> \<not> isNamedStruct (ObjType ob')))
             \<longrightarrow> generate L g typeName il = Inl TypeAssertion)"
    if mem: "(typeName, Some ob) \<in> set (defs (pkg g))" and no: "\<not> isNamedStruct (ObjType ob)"
  proof -
    have ns: "namedStruct (Some ob) = Inl TypeAssertion"
      using no by (rule namedStruct_not)
    obtain q where "collect g typeName = Inl q"
      unfolding collect_def using defsLoop_panics [OF mem ns] by blast
    then have first: "\<exists>p. generate L g typeName il = Inl p"
      by (simp add: generate_def)
    have second: "generate L g typeName il = Inl TypeAssertion"
      if all: "\<forall>v. (typeName, v) \<in> set (defs (pkg g)) \<longrightarrow> (\<exists>ob'. v = Some ob' \<and> \<not> isNamedStruct (ObjType ob'))"
    proof -
      from all have "\<forall>w. (typeName, w) \<in> set (defs (pkg g)) \<longrightarrow> namedStruct w = Inl TypeAssertion"
        using namedStruct_not by blast
      from defsLoop_TypeAssertion [OF mem this] show ?thesis
        by (simp add: generate_def collect_def)
    qed
    from first second show ?thesis by blast
  qed
  have passes: "\<exists>fs. Underlying (ObjType ob) = Struct fs \<and> namedStruct (Some ob) = Inr fs
              \<and> defsLoop typeName [(typeName, Some ob)] st = fieldLoop fs st"
    if "isNamedStruct (ObjType ob)"
  proof -
    from that obtain p n rhs where t: "ObjType ob = Named p n rhs"
      by (cases "ObjType ob") simp_all
    with that obtain fs where u: "Underlying rhs = Struct fs"
      by (cases "Underlying rhs") simp_all
    from t u have "namedStruct (Some ob) = Inr fs" by (simp add: namedStruct_def)
    with t u show ?thesis by (simp split: sum.splits)
  qed
  from panics passes show ?thesis by blast
qed

theorem target_name_type_decides_witness:
  "(''config'', Some (Object FuncObj (Signature ''func()''))) \<in> set (defs (pkg funcPkg))
   \<and> \<not> isNamedStruct (ObjType (Object FuncObj (Signature ''func()'')))
   \<and> generate goLib funcPkg ''config'' [] = Inl TypeAssertion
   \<and> isNamedStruct (ObjType (Object VarObj inner))
   \<and> namedStruct (Some (Object VarObj inner)) = Inr [Var examplePath ''a'' False (Basic ''int'')]"
  using target_name_type_decides [of "''config''" "Object FuncObj (Signature ''func()'')" funcPkg goLib "[]" start]
    target_name_type_decides [of "''config''" "Object VarObj inner" varPkg goLib "[]" start]
  by (simp add: funcPkg_def inner_def)

text \<open>
  C10 as stated fails for a variable whose type is a named struct type. In the package
  \<^verbatim>\<open>type inner struct { a int }; var config inner\<close> the identifier \<open>config\<close> is not a
  type, both assertions pass on its object's type, and the run returns the header and
  the fragment for the field \<open>a\<close> of \<open>inner\<close>.
\<close>

theorem variable_of_struct_type_counterexample:
  "(''config'', Some (Object VarObj inner)) \<in> set (defs (pkg varPkg))
   \<and> Kind (Object VarObj inner) = VarObj
   \<and> generated (generate goLib varPkg ''config'' [])
     = Inr (header_inc \<lparr>h_package = ''example'', h_cfgType = ''config'', h_imports = []\<rparr>
            @ assign_inc \<lparr>origName = ''a'', nameLower = ''a'', nameUpper = ''A'', origType = ''int''\<rparr>, [])"
  by (simp add: varPkg_def inner_def eval_defs)

subsection \<open>Fields for which the text is not what the spec says\<close>

lemma templated_value_one_fragment:
  assumes "temps L (valueType val) = Some temp" and "toRunes L (originalName val) \<noteq> []"
  shows "valuesLoop L [val] b =
           Inr (b @ temp \<lparr>origName = originalName val,
                          nameLower = fromRunes L (ToLower L (hd (toRunes L (originalName val)))
                                                    # tl (toRunes L (originalName val))),
                          nameUpper = fromRunes L (ToUpper L (hd (toRunes L (originalName val)))
                                                    # tl (toRunes L (originalName val))),
                          origType = originalType val\<rparr>)"
  using assms
  by (cases "toRunes L (originalName val)") (simp_all add: lowerName_def upperName_def)

lemma map_value_no_fragment: "valueType val = mapType \<Longrightarrow> valuesLoop L (val # vals) b = valuesLoop L vals b"
  by simp

text \<open>
  C1. The struct with the one field \<^verbatim>\<open>maps map[string]string\<close>: the field is collected
  with \<open>mapType\<close>, \<^verbatim>\<open>temps\<close> has no template for it, and the text written is the header
  alone.
\<close>

theorem map_field_no_fragment:
  "collect (structPkg [mapsField]) ''config''
     = Inr \<lparr>valueList = [\<lparr>originalName = ''maps'', originalType = ''map[string]string'', valueType = mapType\<rparr>],
            importsMap = {}, printed = []\<rparr>
   \<and> generated (generate L (structPkg [mapsField]) ''config'' [])
     = Inr (templateHeader L \<lparr>h_package = ''example'', h_cfgType = ''config'', h_imports = []\<rparr>, [])"
  by (simp add: generated_structPkg collect_structPkg mapsField_def fieldStep_def start_def
        appendValue_def examplePath_def)

text \<open>
  C4. The field \<^verbatim>\<open>frame *errors.Frame\<close> with \<^verbatim>\<open>errors\<close> imported from
  \<^verbatim>\<open>github.com/pkg/errors\<close>: the import recorded is the package path, and the type
  text is \<^verbatim>\<open>rrors.Frame\<close>, since the pointer marker went with the path and the
  slice from index one removes the first letter of the package name. The same type
  without the pointer gives \<^verbatim>\<open>errors.Frame\<close>.
\<close>

theorem pointer_slash_path_text:
  "fieldStep (Var examplePath ''frame'' False (Pointer errorsFrame)) start
     = Inr \<lparr>valueList = [\<lparr>originalName = ''frame'', originalType = ''rrors.Frame'', valueType = pointerType\<rparr>],
            importsMap = {''github.com/pkg/errors''}, printed = []\<rparr>
   \<and> fieldStep (Var examplePath ''frame'' False errorsFrame) start
     = Inr \<lparr>valueList = [\<lparr>originalName = ''frame'', originalType = ''errors.Frame'', valueType = baseType\<rparr>],
            importsMap = {''github.com/pkg/errors''}, printed = []\<rparr>"
  by (simp add: errorsFrame_def eval_defs)

subsection \<open>Interface fields of other packages\<close>





subsection \<open>The order of the import lines\<close>

lemma valuesLoop_append:
  "valuesLoop L vs (b @ c) = (case valuesLoop L vs c of Inl p \<Rightarrow> Inl p | Inr t \<Rightarrow> Inr (b @ t))"
  by (induction vs arbitrary: c) (simp_all split: option.splits sum.splits)

lemma valuesLoop_frags:
  "valuesLoop L vs b = (case valuesLoop L vs [] of Inl p \<Rightarrow> Inl p | Inr t \<Rightarrow> Inr (b @ t))"
  using valuesLoop_append [of L vs b "[]"] by simp

lemma defsLoop_filter:
  "defsLoop typeName ds st = defsLoop typeName (filter (\<lambda>d. fst d = typeName) ds) st"
proof (induction ds arbitrary: st)
  case Nil
  then show ?case by simp
next
  case (Cons d ds)
  obtain e v where "d = (e, v)" by (cases d)
  with Cons show ?case by (simp split: sum.splits)
qed

lemma filter_perm_singleton:
  assumes "mset xs = mset ys" and "filter P xs = [d]"
  shows "filter P ys = [d]"
proof -
  have "mset (filter P ys) = mset (filter P xs)"
    using assms(1) by simp
  with assms(2) have "mset (filter P ys) = {#d#}" by simp
  then show ?thesis by (simp only: mset_single_iff)
qed

lemma rangeOrder_perm: "rangeOrder il1 S \<Longrightarrow> rangeOrder il2 S \<Longrightarrow> mset il1 = mset il2"
  by (metis rangeOrder_def set_eq_iff_mset_eq_distinct)

lemma distinct_sub_singleton: "distinct il \<Longrightarrow> set il \<subseteq> {x} \<Longrightarrow> il = [] \<or> il = [x]"
proof (cases il)
  case Nil
  then show ?thesis by simp
next
  case (Cons a as)
  assume d: "distinct il" and s: "set il \<subseteq> {x}"
  from Cons s have a: "a = x" by simp
  have "as = []"
  proof (cases as)
    case Nil
    then show ?thesis .
  next
    case (Cons b bs)
    with \<open>il = a # as\<close> s have "b = x" by simp
    with a Cons \<open>il = a # as\<close> d show ?thesis by simp
  qed
  with a Cons show ?thesis by simp
qed

lemma rangeOrder_unique:
  assumes "rangeOrder il1 S" and "rangeOrder il2 S" and "S \<subseteq> {x}"
  shows "il1 = il2"
proof -
  from assms have d1: "distinct il1" and s1: "set il1 \<subseteq> {x}"
    and d2: "distinct il2" and s2: "set il2 \<subseteq> {x}" and c: "set il1 = set il2"
    by (simp_all add: rangeOrder_def)
  from distinct_sub_singleton [OF d1 s1] distinct_sub_singleton [OF d2 s2] c
  show ?thesis by auto
qed

lemma generated_frags:
  "generated (generate L g typeName il) =
     (case collect g typeName of
        Inl p \<Rightarrow> Inl p
      | Inr st \<Rightarrow>
         (case valuesLoop L (valueList st) [] of
            Inl p \<Rightarrow> Inl p
          | Inr frags \<Rightarrow>
              Inr (buf g @ templateHeader L
                     \<lparr>h_package = name (pkg g), h_cfgType = typeName, h_imports = il\<rparr> @ frags,
                   printed st)))"
  unfolding generate_def generated_def
  by (subst valuesLoop_frags) (simp split: sum.splits)

text \<open>
  C5 as the code has it. Take two runs on the same package, the iteration over the
  definitions yielding them in any two orders, with one identifier named as the target
  type, the first run collecting without a panic. Then the second run collects the same
  values, imports and printed lines; the two import lists are permutations of each
  other, and equal when there is at most one import path; and the two texts are the
  same buffer, the header executed on the run's own import list, and the same
  fragments (or both runs end in the same panic).
\<close>

theorem output_fixed_up_to_import_order:
  assumes "buf g1 = buf g2" and "name (pkg g1) = name (pkg g2)"
    and "mset (defs (pkg g1)) = mset (defs (pkg g2))"
    and "filter (\<lambda>d. fst d = typeName) (defs (pkg g1)) = [d]"
    and "collect g1 typeName = Inr st"
    and "rangeOrder il1 (importsMap st)" and "rangeOrder il2 (importsMap st)"
  shows "collect g2 typeName = Inr st
    \<and> mset il1 = mset il2
    \<and> ((\<exists>x. importsMap st \<subseteq> {x}) \<longrightarrow> il1 = il2)
    \<and> (\<exists>r. r = valuesLoop L (valueList st) []
         \<and> generated (generate L g1 typeName il1) =
             (case r of Inl p \<Rightarrow> Inl p
              | Inr frags \<Rightarrow> Inr (buf g1 @ templateHeader L
                    \<lparr>h_package = name (pkg g1), h_cfgType = typeName, h_imports = il1\<rparr> @ frags, printed st))
         \<and> generated (generate L g2 typeName il2) =
             (case r of Inl p \<Rightarrow> Inl p
              | Inr frags \<Rightarrow> Inr (buf g1 @ templateHeader L
                    \<lparr>h_package = name (pkg g1), h_cfgType = typeName, h_imports = il2\<rparr> @ frags, printed st)))"
proof -
  have "filter (\<lambda>d. fst d = typeName) (defs (pkg g2)) = [d]"
    using assms(3,4) by (rule filter_perm_singleton)
  with assms(4) have "collect g2 typeName = collect g1 typeName"
    unfolding collect_def
    by (subst defsLoop_filter, subst (2) defsLoop_filter) simp
  with assms(5) have c2: "collect g2 typeName = Inr st" by simp
  have perm: "mset il1 = mset il2"
    using assms(6,7) by (rule rangeOrder_perm)
  have uniq: "(\<exists>x. importsMap st \<subseteq> {x}) \<longrightarrow> il1 = il2"
  proof
    assume "\<exists>x. importsMap st \<subseteq> {x}"
    then obtain x where "importsMap st \<subseteq> {x}" ..
    with assms(6,7) show "il1 = il2" by (rule rangeOrder_unique)
  qed
  have g1: "generated (generate L g1 typeName il1) =
             (case valuesLoop L (valueList st) [] of Inl p \<Rightarrow> Inl p
              | Inr frags \<Rightarrow> Inr (buf g1 @ templateHeader L
                    \<lparr>h_package = name (pkg g1), h_cfgType = typeName, h_imports = il1\<rparr> @ frags, printed st))"
    unfolding generated_frags assms(5) by simp
  have g2: "generated (generate L g2 typeName il2) =
             (case valuesLoop L (valueList st) [] of Inl p \<Rightarrow> Inl p
              | Inr frags \<Rightarrow> Inr (buf g1 @ templateHeader L
                    \<lparr>h_package = name (pkg g1), h_cfgType = typeName, h_imports = il2\<rparr> @ frags, printed st))"
    unfolding generated_frags c2 assms(1,2) by simp
  from c2 perm uniq g1 g2 show ?thesis by blast
qed

theorem output_fixed_up_to_import_order_witness:
  "mset (defs (pkg (structPkg importingFields))) = mset (defs (pkg (structPkg importingFields)))
   \<and> filter (\<lambda>d. fst d = ''config'') (defs (pkg (structPkg importingFields)))
        = [(''config'', Some (Object TypeNameObj (Named (Some examplePath) ''config'' (Struct importingFields))))]
   \<and> collect (structPkg importingFields) ''config''
       = Inr \<lparr>valueList = [\<lparr>originalName = ''inter'', originalType = ''io.Reader'', valueType = interfaceType\<rparr>,
                          \<lparr>originalName = ''buf2'', originalType = ''sync.WaitGroup'', valueType = pointerType\<rparr>],
            importsMap = {''io'', ''sync''}, printed = []\<rparr>
   \<and> rangeOrder [''io'', ''sync''] {''io'', ''sync''}
   \<and> rangeOrder [''sync'', ''io''] {''io'', ''sync''}
   \<and> mset [''io'', ''sync''] = mset [''sync'', ''io'']"
proof -
  let ?g = "structPkg importingFields"
  let ?st = "\<lparr>valueList = [\<lparr>originalName = ''inter'', originalType = ''io.Reader'', valueType = interfaceType\<rparr>,
                          \<lparr>originalName = ''buf2'', originalType = ''sync.WaitGroup'', valueType = pointerType\<rparr>],
            importsMap = {''io'', ''sync''}, printed = []\<rparr>"
  have f: "filter (\<lambda>d. fst d = ''config'') (defs (pkg ?g))
        = [(''config'', Some (Object TypeNameObj (Named (Some examplePath) ''config'' (Struct importingFields))))]"
    by (simp add: structPkg_def)
  have c: "collect ?g ''config'' = Inr ?st"
    unfolding collect_structPkg
    by (simp add: importingFields_def syncWaitGroup_def eval_defs insert_commute)
  have r1: "rangeOrder [''io'', ''sync''] (importsMap ?st)"
    and r2: "rangeOrder [''sync'', ''io''] (importsMap ?st)"
    by (simp_all add: rangeOrder_def insert_commute)
  from output_fixed_up_to_import_order [OF refl refl refl f c r1 r2, of goLib] f c r1 r2
  show ?thesis by simp
qed

text \<open>
  C5 as stated fails on a struct with the fields \<^verbatim>\<open>inter io.Reader\<close> and
  \<^verbatim>\<open>buf2 *sync.WaitGroup\<close>: the imports are \<^verbatim>\<open>io\<close> and \<^verbatim>\<open>sync\<close>, the iteration may
  yield them in either order, and the two texts differ.
\<close>

theorem import_order_counterexample:
  "collect (structPkg importingFields) ''config''
     = Inr \<lparr>valueList = [\<lparr>originalName = ''inter'', originalType = ''io.Reader'', valueType = interfaceType\<rparr>,
                          \<lparr>originalName = ''buf2'', originalType = ''sync.WaitGroup'', valueType = pointerType\<rparr>],
            importsMap = {''io'', ''sync''}, printed = []\<rparr>
   \<and> rangeOrder [''io'', ''sync''] {''io'', ''sync''}
   \<and> rangeOrder [''sync'', ''io''] {''io'', ''sync''}
   \<and> generated (generate goLib (structPkg importingFields) ''config'' [''io'', ''sync''])
     \<noteq> generated (generate goLib (structPkg importingFields) ''config'' [''sync'', ''io''])"
  unfolding collect_structPkg generated_structPkg
  by (simp add: importingFields_def syncWaitGroup_def rangeOrder_def eval_defs
       header_inc_def assign_inc_def pointerType_inc_def nl_def tab_def quoted_def insert_commute)


subsection \<open>The map option\<close>

lemma entries_upd_other:
  "m \<noteq> Some r \<Longrightarrow> entries (h(r := x)) m = entries h m"
  by (cases m) (auto simp: entries_def)

lemma rangeAssign_merge:
  assumes "set ks \<subseteq> dom (entries h opt)"
  shows "rangeAssign opt (Some r) ks h
           = Inr (h(r := h r ++ (entries h opt |` set ks)))"
  using assms
proof (induction ks arbitrary: h)
  case Nil
  then show ?case by simp
next
  case (Cons k ks)
  from Cons.prems obtain v where v: "entries h opt k = Some v" by auto
  let ?h = "h(r := (h r)(k \<mapsto> v))"
  have same: "entries ?h opt = entries h opt"
  proof (cases "opt = Some r")
    case True
    with v have "h r k = Some v" by (simp add: entries_def)
    then have "(h r)(k \<mapsto> v) = h r" by (rule map_upd_triv)
    then show ?thesis by simp
  next
    case False
    then show ?thesis by (rule entries_upd_other)
  qed
  have sub: "set ks \<subseteq> dom (entries ?h opt)"
    using Cons.prems same by simp
  have "(h r)(k \<mapsto> v) ++ (entries h opt |` set ks) = h r ++ (entries h opt |` set (k # ks))"
  proof (rule ext)
    fix x
    show "((h r)(k \<mapsto> v) ++ (entries h opt |` set ks)) x = (h r ++ (entries h opt |` set (k # ks))) x"
      using v by (auto simp: map_add_def restrict_map_def split: option.splits)
  qed
  then have upd: "?h(r := ?h r ++ (entries h opt |` set ks))
                    = h(r := h r ++ (entries h opt |` set (k # ks)))"
    by simp
  have "rangeAssign opt (Some r) (k # ks) h = rangeAssign opt (Some r) ks ?h"
    using v by simp
  also have "\<dots> = Inr (?h(r := ?h r ++ (entries ?h opt |` set ks)))"
    by (rule Cons.IH [OF sub])
  also have "\<dots> = Inr (h(r := h r ++ (entries h opt |` set (k # ks))))"
    unfolding same upd ..
  finally show ?case .
qed

lemma restrict_map_dom: "m |` dom m = m"
  by (rule ext) (simp add: restrict_map_def domIff)

lemma mapsOption_Apply_merge:
  assumes "set ks = dom (entries h opt)"
  shows "mapsOption_Apply opt ks (c, h) =
           (case maps c of
              None \<Rightarrow> Inr (c\<lparr>maps := opt\<rparr>, h)
            | Some r \<Rightarrow> Inr (c, h(r := h r ++ entries h opt)))"
proof (cases "maps c")
  case (Some r)
  have "entries h opt |` dom (entries h opt) = entries h opt"
    by (rule restrict_map_dom)
  with Some assms rangeAssign_merge [of ks h opt r] show ?thesis
    by (simp add: mapsOption_Apply_def)
next
  case None
  show ?thesis
  proof (cases opt)
    case None
    with assms have "ks = []" by (simp add: entries_def)
    with None \<open>maps c = None\<close> show ?thesis by (simp add: mapsOption_Apply_def)
  next
    case (Some r)
    have "entries h opt |` dom (entries h opt) = entries h opt"
      by (rule restrict_map_dom)
    moreover have "h r ++ h r = h r" by (rule ext) (simp add: map_add_def split: option.splits)
    ultimately show ?thesis
      using Some \<open>maps c = None\<close> assms rangeAssign_merge [of ks h opt r]
      by (simp add: mapsOption_Apply_def entries_def)
  qed
qed

text \<open>
  C2. Applying the option made from map \<open>a\<close> and then the option made from map \<open>b\<close>
  leaves the field non-nil and holding what it held before, merged with the entries of
  \<open>a\<close> and then with those of \<open>b\<close>, entries of the same key being overwritten, in
  whatever order the two loops yield the keys; a nil field is first set to the option's
  map. (\<open>b\<close> is a map other than \<open>a\<close> and than the field's.) From a nil field,
  \<^verbatim>\<open>{"x":1}\<close> and then \<^verbatim>\<open>{"y":2}\<close> give \<^verbatim>\<open>{"x":1,"y":2}\<close>.
\<close>

theorem map_options_accumulate:
  assumes "a \<noteq> b" and "maps c \<noteq> Some b"
    and "set ksA = dom (h a)" and "set ksB = dom (h b)"
  shows "\<exists>c' h'. andThen (mapsOption_Apply (WithMaps (Some a)) ksA (c, h))
                          (mapsOption_Apply (WithMaps (Some b)) ksB) = Inr (c', h')
           \<and> maps c' \<noteq> None
           \<and> entries h' (maps c') = entries h (maps c) ++ h a ++ h b"
proof (cases "maps c")
  case None
  have A: "mapsOption_Apply (Some a) ksA (c, h) = Inr (c\<lparr>maps := Some a\<rparr>, h)"
    using assms(3) None by (simp add: mapsOption_Apply_merge entries_def)
  have B: "mapsOption_Apply (Some b) ksB (c\<lparr>maps := Some a\<rparr>, h)
             = Inr (c\<lparr>maps := Some a\<rparr>, h(a := h a ++ h b))"
    using assms(4) by (simp add: mapsOption_Apply_merge entries_def)
  from A B None show ?thesis
    by (simp add: andThen_def WithMaps_def entries_def)
next
  case (Some r)
  with assms(2) have rb: "r \<noteq> b" by simp
  have A: "mapsOption_Apply (Some a) ksA (c, h) = Inr (c, h(r := h r ++ h a))"
    using assms(3) Some by (simp add: mapsOption_Apply_merge entries_def)
  have "set ksB = dom (entries (h(r := h r ++ h a)) (Some b))"
    using assms(4) rb by (simp add: entries_def)
  from mapsOption_Apply_merge [OF this, of c]
  have B: "mapsOption_Apply (Some b) ksB (c, h(r := h r ++ h a))
             = Inr (c, h(r := h r ++ h a ++ h b))"
    using Some rb by (simp add: entries_def)
  from A B Some show ?thesis
    by (simp add: andThen_def WithMaps_def entries_def)
qed

theorem map_options_accumulate_witness:
  "(0::nat) \<noteq> 1 \<and> maps \<lparr>maps = None\<rparr> \<noteq> Some 1
   \<and> set [''x''] = dom (abStore 0) \<and> set [''y''] = dom (abStore 1)
   \<and> (\<exists>c' h'. andThen (mapsOption_Apply (WithMaps (Some 0)) [''x''] (\<lparr>maps = None\<rparr>, abStore))
                          (mapsOption_Apply (WithMaps (Some 1)) [''y'']) = Inr (c', h')
           \<and> maps c' \<noteq> None
           \<and> entries h' (maps c') = [''x'' \<mapsto> 1, ''y'' \<mapsto> 2])"
proof -
  have hyp: "(0::nat) \<noteq> 1" "maps \<lparr>maps = None\<rparr> \<noteq> Some 1"
    "set [''x''] = dom (abStore 0)" "set [''y''] = dom (abStore 1)"
    by (simp_all add: abStore_def)
  have both: "entries abStore (maps \<lparr>maps = None\<rparr>) ++ abStore 0 ++ abStore 1
                = [''x'' \<mapsto> 1, ''y'' \<mapsto> 2]"
    by (rule ext) (simp add: abStore_def entries_def map_add_def)
  from map_options_accumulate [OF hyp] both hyp show ?thesis
    by simp
qed


end
